theory Spec2Isabelle
  imports Complex_Main "HOL-Library.Word"
begin

unbundle bit_operations_syntax

section \<open>JavaScript values\<close>

text \<open>
  The values the client stores and forwards come out of \<open>JSON.parse\<close> or are the
  constants \<open>null\<close>, \<open>true\<close>, \<open>false\<close>; a field a message lacks reads as \<open>undefined\<close>.
  A number is the value of an IEEE double that JSON text can denote: a rational, or an
  infinity on overflow (\<open>JSON.parse\<close> never yields NaN, and \<open>===\<close> does not
  separate the two zeros). Arrays and objects carry the identity of their allocation,
  which is what \<open>===\<close> compares. Strings are \<open>string\<close>.
\<close>

datatype number = Finite rat | PosInfinity | NegInfinity

type_synonym ref = nat

datatype jsval =
    JUndefined
  | JNull
  | JBool bool
  | JNum number
  | JStr string
  | JArr ref "jsval list"
  | JObj ref "(string \<times> jsval) list"

text \<open>Strict equality \<open>a === b\<close>.\<close>

fun strict_eq :: "jsval \<Rightarrow> jsval \<Rightarrow> bool" where
  "strict_eq JUndefined JUndefined = True"
| "strict_eq JNull JNull = True"
| "strict_eq (JBool a) (JBool b) = (a = b)"
| "strict_eq (JNum a) (JNum b) = (a = b)"
| "strict_eq (JStr a) (JStr b) = (a = b)"
| "strict_eq (JArr r _) (JArr r' _) = (r = r')"
| "strict_eq (JObj r _) (JObj r' _) = (r = r')"
| "strict_eq _ _ = False"

text \<open>
  Exceptions: the two the runtime raises on the paths of this program, and whatever an
  application callback throws.
\<close>

datatype 'x exn = TypeError | RangeError | Raised 'x

text \<open>
  A call either returns or throws; in both cases the state it has reached stays, since
  JavaScript does not roll back the assignments made before a throw.
\<close>

datatype ('e, 'a) outcome = Returns 'a | Throws 'e 'a

fun reached :: "('e, 'a) outcome \<Rightarrow> 'a" where
  "reached (Returns a) = a"
| "reached (Throws e a) = a"

text \<open>
  Reading a property \<open>d.k\<close>. On \<open>null\<close> and \<open>undefined\<close> the read throws a
  TypeError. On an object the own property is found, or the read gives \<open>undefined\<close>;
  on every other value it gives \<open>undefined\<close>. This is the behaviour for the property
  names the handler reads (\<open>type\<close>, \<open>playerId\<close>, \<open>roomId\<close>, \<open>ownerId\<close>,
  \<open>maxClients\<close>, \<open>metaData\<close>, \<open>oldHostId\<close>, \<open>newHostId\<close>, \<open>from\<close>, \<open>payload\<close>,
  \<open>rooms\<close>, \<open>tag\<close>, \<open>tags\<close>, \<open>message\<close>), none of which is defined on a built-in
  prototype. The list of an object holds its own properties, one entry for each key.
\<close>

fun own_prop :: "jsval \<Rightarrow> string \<Rightarrow> jsval" where
  "own_prop (JObj r fs) k = (case map_of fs k of Some v \<Rightarrow> v | None \<Rightarrow> JUndefined)"
| "own_prop _ k = JUndefined"

fun get_prop :: "jsval \<Rightarrow> string \<Rightarrow> 'x exn + jsval" where
  "get_prop JUndefined k = Inl TypeError"
| "get_prop JNull k = Inl TypeError"
| "get_prop d k = Inr (own_prop d k)"

section \<open>The client object\<close>

text \<open>
  The four fields under "connection / room state" of the constructor. \<open>isHost\<close> is only
  ever assigned \<open>true\<close>, \<open>false\<close> or the result of a \<open>===\<close>.
\<close>

record session =
  playerId :: jsval
  roomId :: jsval
  ownerId :: jsval
  isHost :: bool

text \<open>
  What a callback is passed: a value, or the ArrayBuffer cut out of a binary frame.
\<close>

datatype arg = Val jsval | Bytes "8 word list"

text \<open>
  A callback is application code. It runs on the application's own state \<open>'w\<close>, may
  read the connection / room state of the client, and returns or throws. Callbacks that
  assign to the client's fields or register listeners while an event is being emitted
  are outside this model.
\<close>

type_synonym ('x, 'w) callback = "session \<Rightarrow> arg list \<Rightarrow> 'w \<Rightarrow> ('x exn, 'w) outcome"

text \<open>
  The transport: a WebSocket with its \<open>readyState\<close>, and the frames handed to it by
  \<open>send\<close>, oldest first.
\<close>

datatype ready_state = CONNECTING | OPEN | CLOSING | CLOSED

datatype frame = TextFrame string | BinaryFrame "8 word list"

record websocket =
  readyState :: ready_state
  binaryType :: string
  sent :: "frame list"

record ('x, 'w) client = session +
  url :: string
  gameName :: string
  ws :: "websocket option"
  listeners :: "string \<rightharpoonup> ('x, 'w) callback list"

text \<open>The constructor (\<open>gameName\<close> defaults to \<open>defaultGame\<close> at the call).\<close>

definition NetClient :: "string \<Rightarrow> string \<Rightarrow> ('x, 'w) client" where
  "NetClient u g =
     \<lparr>playerId = JNull, roomId = JNull, ownerId = JNull, isHost = False,
      url = u, gameName = g, ws = None, listeners = Map.empty\<rparr>"

section \<open>Event API\<close>

text \<open>
  \<open>listeners\<close> is a plain object, so a name that is no own property of it but is a
  property of \<open>Object.prototype\<close> reads as that inherited value, which is truthy and
  has neither \<open>push\<close> nor \<open>forEach\<close>.
\<close>

definition object_prototype_keys :: "string list" where
  "object_prototype_keys =
     [''constructor'', ''__defineGetter__'', ''__defineSetter__'', ''hasOwnProperty'',
      ''__lookupGetter__'', ''__lookupSetter__'', ''isPrototypeOf'',
      ''propertyIsEnumerable'', ''toString'', ''valueOf'', ''__proto__'',
      ''toLocaleString'']"

definition on ::
  "('x, 'w) client \<Rightarrow> string \<Rightarrow> ('x, 'w) callback \<Rightarrow> ('x exn, ('x, 'w) client) outcome" where
  "on c event callback =
     (case listeners c event of
        None \<Rightarrow>
          if event \<in> set object_prototype_keys then Throws TypeError c
          else Returns (c\<lparr>listeners := (listeners c)(event \<mapsto> [callback])\<rparr>)
      | Some cbs \<Rightarrow> Returns (c\<lparr>listeners := (listeners c)(event \<mapsto> cbs @ [callback])\<rparr>))"

text \<open>
  \<open>Array.prototype.forEach\<close> with \<open>cb => cb(...args)\<close>: the callbacks run in order,
  and the first one that throws ends the loop with its exception.
\<close>

fun forEach ::
  "('x, 'w) callback list \<Rightarrow> session \<Rightarrow> arg list \<Rightarrow> 'w \<Rightarrow> ('x exn, 'w) outcome" where
  "forEach [] s args w = Returns w"
| "forEach (cb # cbs) s args w =
     (case cb s args w of
        Returns w' \<Rightarrow> forEach cbs s args w'
      | Throws e w' \<Rightarrow> Throws e w')"

fun with_client :: "'c \<Rightarrow> ('e, 'w) outcome \<Rightarrow> ('e, 'c \<times> 'w) outcome" where
  "with_client c (Returns w) = Returns (c, w)"
| "with_client c (Throws e w) = Throws e (c, w)"

definition emit ::
  "('x, 'w) client \<Rightarrow> string \<Rightarrow> arg list \<Rightarrow> 'w \<Rightarrow> ('x exn, ('x, 'w) client \<times> 'w) outcome" where
  "emit c event args w =
     (case listeners c event of
        None \<Rightarrow>
          if event \<in> set object_prototype_keys then Throws TypeError (c, w)
          else Returns (c, w)
      | Some cbs \<Rightarrow> with_client c (forEach cbs (session.truncate c) args w))"

section \<open>Connection API\<close>

text \<open>
  \<open>connect\<close> installs four handlers on the socket; they are the functions \<open>onopen\<close>,
  \<open>onclose\<close>, \<open>onerror\<close> and \<open>onmessage\<close> below. The WebSocket constructor is the
  platform's and is a parameter: it yields a socket or throws.
\<close>

definition connect ::
  "(string \<Rightarrow> 'x exn + websocket) \<Rightarrow> ('x, 'w) client \<Rightarrow> ('x exn, ('x, 'w) client) outcome" where
  "connect new_WebSocket c =
     (case new_WebSocket (url c) of
        Inl e \<Rightarrow> Throws e c
      | Inr s \<Rightarrow> Returns (c\<lparr>ws := Some (s\<lparr>binaryType := ''arraybuffer''\<rparr>)\<rparr>))"

definition onopen ::
  "('x, 'w) client \<Rightarrow> 'w \<Rightarrow> ('x exn, ('x, 'w) client \<times> 'w) outcome" where
  "onopen c w = emit c ''connected'' [] w"

definition onclose ::
  "('x, 'w) client \<Rightarrow> 'w \<Rightarrow> ('x exn, ('x, 'w) client \<times> 'w) outcome" where
  "onclose c w =
     (let c1 = c\<lparr>playerId := JNull\<rparr>;
          c2 = c1\<lparr>roomId := JNull\<rparr>;
          c3 = c2\<lparr>ownerId := JNull\<rparr>;
          c4 = c3\<lparr>isHost := False\<rparr>
      in emit c4 ''disconnected'' [] w)"

text \<open>\<open>onerror\<close> writes a warning to the console and touches nothing else.\<close>

definition onerror ::
  "('x, 'w) client \<Rightarrow> 'w \<Rightarrow> ('x exn, ('x, 'w) client \<times> 'w) outcome" where
  "onerror c w = Returns (c, w)"

text \<open>\<open>disconnect\<close>: \<open>this.ws?.close()\<close>, then the handle is dropped.\<close>

definition disconnect :: "('x, 'w) client \<Rightarrow> ('x, 'w) client" where
  "disconnect c = c\<lparr>ws := None\<rparr>"

section \<open>Sending\<close>

text \<open>
  The object literal handed to \<open>_send\<close>: its keys in order, each with a string
  literal, the array literal of tags, or a value passed through from the caller.
\<close>

datatype field_value = FStr string | FList "jsval list" | FVal jsval

type_synonym json_object = "(string \<times> field_value) list"

text \<open>\<open>WebSocket.send\<close> on an open socket queues the frame.\<close>

definition ws_send :: "websocket \<Rightarrow> frame \<Rightarrow> websocket" where
  "ws_send s f = s\<lparr>sent := sent s @ [f]\<rparr>"

text \<open>
  \<open>_send\<close>. \<open>JSON.stringify\<close> is the platform's and is a parameter: it yields the
  text or throws (a cyclic value, a BigInt).
\<close>

definition send ::
  "(json_object \<Rightarrow> 'x exn + string) \<Rightarrow> ('x, 'w) client \<Rightarrow> json_object \<Rightarrow>
   ('x exn, ('x, 'w) client) outcome" where
  "send JSON_stringify c obj =
     (case ws c of
        None \<Rightarrow> Returns c
      | Some s \<Rightarrow>
          if readyState s \<noteq> OPEN then Returns c
          else
            (case JSON_stringify obj of
               Inl e \<Rightarrow> Throws e c
             | Inr txt \<Rightarrow> Returns (c\<lparr>ws := Some (ws_send s (TextFrame txt))\<rparr>)))"

section \<open>Room, room-settings and messaging API\<close>

text \<open>
  The spread \<open>...v\<close> inside an array literal: the elements of an array, the characters
  of a string, and a TypeError for every value that is not iterable (\<open>null\<close>, a
  boolean, a number, a plain object; \<open>undefined\<close> too).
\<close>

fun spread :: "jsval \<Rightarrow> 'x exn + jsval list" where
  "spread (JArr r xs) = Inr xs"
| "spread (JStr s) = Inr (map (\<lambda>ch. JStr [ch]) s)"
| "spread v = Inl TypeError"

text \<open>The truth value of a value in a condition.\<close>

fun truthy :: "jsval \<Rightarrow> bool" where
  "truthy JUndefined = False"
| "truthy JNull = False"
| "truthy (JBool b) = b"
| "truthy (JNum n) = (n \<noteq> Finite 0)"
| "truthy (JStr s) = (s \<noteq> [])"
| "truthy (JArr r xs) = True"
| "truthy (JObj r fs) = True"

text \<open>
  A parameter with a default, \<open>p = d\<close>: the default stands in for an argument that is
  \<open>undefined\<close> (omitted), and for no other. The default \<open>{}\<close> is a new empty object;
  it is only serialised, so its identity plays no part.
\<close>

definition default_param :: "jsval \<Rightarrow> jsval \<Rightarrow> jsval" where
  "default_param v d = (if v = JUndefined then d else v)"

definition empty_object :: jsval where
  "empty_object = JObj 0 []"

text \<open>
  \<open>createRoom(tags = [], maxClients = 8, isPrivate = false, metaData = {})\<close>. The
  array literal of the message is built before \<open>_send\<close> is entered, and its first
  element is the spread of \<open>tags\<close>; the default \<open>[]\<close> spreads to nothing. The game
  name is a string.
\<close>

definition createRoom ::
  "(json_object \<Rightarrow> 'x exn + string) \<Rightarrow> ('x, 'w) client \<Rightarrow> jsval \<Rightarrow> jsval \<Rightarrow> jsval \<Rightarrow>
   jsval \<Rightarrow> ('x exn, ('x, 'w) client) outcome" where
  "createRoom JSON_stringify c tags maxClients isPrivate metaData =
     (case (if tags = JUndefined then Inr [] else spread tags) of
        Inl e \<Rightarrow> Throws e c
      | Inr ts \<Rightarrow>
          send JSON_stringify c
            [(''type'', FStr ''createRoom''),
             (''tags'', FList (ts @ [JStr (''game:'' @ gameName c)] @
                                (if truthy (default_param isPrivate (JBool False))
                                 then [JStr ''private''] else []))),
             (''maxClients'', FVal (default_param maxClients (JNum (Finite 8)))),
             (''metaData'', FVal (default_param metaData empty_object))])"

definition joinRoom ::
  "(json_object \<Rightarrow> 'x exn + string) \<Rightarrow> ('x, 'w) client \<Rightarrow> jsval \<Rightarrow>
   ('x exn, ('x, 'w) client) outcome" where
  "joinRoom JSON_stringify c rid =
     send JSON_stringify c [(''type'', FStr ''joinRoom''), (''roomId'', FVal rid)]"

definition leaveRoom ::
  "(json_object \<Rightarrow> 'x exn + string) \<Rightarrow> ('x, 'w) client \<Rightarrow> ('x exn, ('x, 'w) client) outcome" where
  "leaveRoom JSON_stringify c = send JSON_stringify c [(''type'', FStr ''leaveRoom'')]"

text \<open>\<open>listRooms(tags = [])\<close>, with the same spread before \<open>_send\<close>.\<close>

definition listRooms ::
  "(json_object \<Rightarrow> 'x exn + string) \<Rightarrow> ('x, 'w) client \<Rightarrow> jsval \<Rightarrow>
   ('x exn, ('x, 'w) client) outcome" where
  "listRooms JSON_stringify c tags =
     (case (if tags = JUndefined then Inr [] else spread tags) of
        Inl e \<Rightarrow> Throws e c
      | Inr ts \<Rightarrow>
          send JSON_stringify c
            [(''type'', FStr ''listRooms''),
             (''tags'', FList (ts @ [JStr (''game:'' @ gameName c)]))])"

definition updateMeta ::
  "(json_object \<Rightarrow> 'x exn + string) \<Rightarrow> ('x, 'w) client \<Rightarrow> jsval \<Rightarrow>
   ('x exn, ('x, 'w) client) outcome" where
  "updateMeta JSON_stringify c metaData =
     send JSON_stringify c [(''type'', FStr ''updateMeta''), (''metaData'', FVal metaData)]"

definition addTag ::
  "(json_object \<Rightarrow> 'x exn + string) \<Rightarrow> ('x, 'w) client \<Rightarrow> jsval \<Rightarrow>
   ('x exn, ('x, 'w) client) outcome" where
  "addTag JSON_stringify c tag =
     send JSON_stringify c [(''type'', FStr ''setRoomTag''), (''tag'', FVal tag)]"

definition removeTag ::
  "(json_object \<Rightarrow> 'x exn + string) \<Rightarrow> ('x, 'w) client \<Rightarrow> jsval \<Rightarrow>
   ('x exn, ('x, 'w) client) outcome" where
  "removeTag JSON_stringify c tag =
     send JSON_stringify c [(''type'', FStr ''clearRoomTag''), (''tag'', FVal tag)]"

definition sendRelay ::
  "(json_object \<Rightarrow> 'x exn + string) \<Rightarrow> ('x, 'w) client \<Rightarrow> jsval \<Rightarrow>
   ('x exn, ('x, 'w) client) outcome" where
  "sendRelay JSON_stringify c payload =
     send JSON_stringify c [(''type'', FStr ''relay''), (''payload'', FVal payload)]"

definition tellOwner ::
  "(json_object \<Rightarrow> 'x exn + string) \<Rightarrow> ('x, 'w) client \<Rightarrow> jsval \<Rightarrow>
   ('x exn, ('x, 'w) client) outcome" where
  "tellOwner JSON_stringify c payload =
     send JSON_stringify c [(''type'', FStr ''tellOwner''), (''payload'', FVal payload)]"

definition tellPlayer ::
  "(json_object \<Rightarrow> 'x exn + string) \<Rightarrow> ('x, 'w) client \<Rightarrow> jsval \<Rightarrow> jsval \<Rightarrow>
   ('x exn, ('x, 'w) client) outcome" where
  "tellPlayer JSON_stringify c pid payload =
     send JSON_stringify c
       [(''type'', FStr ''tellPlayer''), (''playerId'', FVal pid), (''payload'', FVal payload)]"

definition sendBinary ::
  "('x, 'w) client \<Rightarrow> 8 word list \<Rightarrow> ('x exn, ('x, 'w) client) outcome" where
  "sendBinary c buffer =
     (case ws c of
        None \<Rightarrow> Returns c
      | Some s \<Rightarrow>
          if readyState s \<noteq> OPEN then Returns c
          else Returns (c\<lparr>ws := Some (ws_send s (BinaryFrame buffer))\<rparr>))"

section \<open>Internal message handling\<close>

text \<open>
  \<open>evt.data\<close> of a message event, the socket being in \<open>arraybuffer\<close> mode: an
  ArrayBuffer for a binary frame, a string for a text frame.
\<close>

datatype message_data = ArrayBuffer "8 word list" | Text string

record message_event =
  data :: message_data

text \<open>
  \<open>DataView.getUint32(byteOffset)\<close>, big-endian as the call passes no flag: a
  RangeError when the four bytes do not lie inside the buffer.
\<close>

definition getUint32 :: "8 word list \<Rightarrow> nat \<Rightarrow> 'x exn + 32 word" where
  "getUint32 bytes byteOffset =
     (if length bytes < byteOffset + 4 then Inl RangeError
      else Inr (push_bit 24 (ucast (bytes ! byteOffset))
             OR push_bit 16 (ucast (bytes ! (byteOffset + 1)))
             OR push_bit 8 (ucast (bytes ! (byteOffset + 2)))
             OR ucast (bytes ! (byteOffset + 3))))"

text \<open>\<open>ArrayBuffer.slice(begin)\<close> for a non-negative \<open>begin\<close>: a copy of the rest.\<close>

definition slice :: "8 word list \<Rightarrow> nat \<Rightarrow> 8 word list" where
  "slice bytes begin = drop begin bytes"

text \<open>A 32-bit unsigned integer as a JavaScript number.\<close>

definition uint32_number :: "32 word \<Rightarrow> jsval" where
  "uint32_number n = JNum (Finite (of_nat (unat n)))"

text \<open>
  \<open>_handleMessage\<close>. \<open>JSON.parse\<close> is the platform's and is a parameter: \<open>None\<close>
  is the SyntaxError that the \<open>catch\<close> swallows. The \<open>switch\<close> compares
  \<open>data.type\<close> with each label by \<open>===\<close>, in the order of the source.
\<close>

definition handleMessage ::
  "(string \<Rightarrow> jsval option) \<Rightarrow> ('x, 'w) client \<Rightarrow> 'w \<Rightarrow> message_event \<Rightarrow>
   ('x exn, ('x, 'w) client \<times> 'w) outcome" where
  "handleMessage JSON_parse c w evt =
     (case data evt of
        ArrayBuffer bytes \<Rightarrow>
          (case getUint32 bytes 0 of
             Inl e \<Rightarrow> Throws e (c, w)
           | Inr fromId \<Rightarrow>
               (let payload = slice bytes 4
                in emit c ''binary'' [Val (uint32_number fromId), Bytes payload] w))
      | Text txt \<Rightarrow>
          (case JSON_parse txt of
             None \<Rightarrow> Returns (c, w)
           | Some d \<Rightarrow>
               (case get_prop d ''type'' of
                  Inl e \<Rightarrow> Throws e (c, w)
                | Inr t \<Rightarrow>
                    if strict_eq t (JStr ''assignId'') then
                      emit (c\<lparr>playerId := own_prop d ''playerId''\<rparr>)
                        ''assignedId'' [Val (own_prop d ''playerId'')] w
                    else if strict_eq t (JStr ''roomCreated'') then
                      emit (c\<lparr>roomId := own_prop d ''roomId'',
                               ownerId := own_prop d ''playerId'',
                               isHost := True\<rparr>)
                        ''roomCreated''
                        [Val (own_prop d ''roomId''), Val (own_prop d ''playerId''),
                         Val (own_prop d ''metaData'')] w
                    else if strict_eq t (JStr ''roomJoined'') then
                      emit (c\<lparr>roomId := own_prop d ''roomId'',
                               ownerId := own_prop d ''ownerId'',
                               isHost := False\<rparr>)
                        ''roomJoined''
                        [Val (own_prop d ''roomId''), Val (own_prop d ''playerId''),
                         Val (own_prop d ''ownerId''), Val (own_prop d ''maxClients''),
                         Val (own_prop d ''metaData'')] w
                    else if strict_eq t (JStr ''playerJoined'') then
                      emit c ''playerJoined'' [Val (own_prop d ''playerId'')] w
                    else if strict_eq t (JStr ''leftRoom'') then
                      emit (c\<lparr>roomId := JNull, ownerId := JNull, isHost := False\<rparr>)
                        ''leftRoom'' [Val (own_prop d ''roomId'')] w
                    else if strict_eq t (JStr ''makeHost'') then
                      emit (c\<lparr>isHost := True, ownerId := playerId c\<rparr>)
                        ''makeHost'' [Val (own_prop d ''oldHostId'')] w
                    else if strict_eq t (JStr ''reassignedHost'') then
                      emit (c\<lparr>ownerId := own_prop d ''newHostId'',
                               isHost := strict_eq (playerId c) (own_prop d ''newHostId'')\<rparr>)
                        ''reassignedHost''
                        [Val (own_prop d ''newHostId''), Val (own_prop d ''oldHostId'')] w
                    else if strict_eq t (JStr ''playerLeft'') then
                      emit c ''playerLeft'' [Val (own_prop d ''playerId'')] w
                    else if strict_eq t (JStr ''relay'') then
                      emit c ''relay'' [Val (own_prop d ''from''), Val (own_prop d ''payload'')] w
                    else if strict_eq t (JStr ''tellOwner'') then
                      emit c ''tellOwner''
                        [Val (own_prop d ''from''), Val (own_prop d ''payload'')] w
                    else if strict_eq t (JStr ''tellPlayer'') then
                      emit c ''tellPlayer''
                        [Val (own_prop d ''from''), Val (own_prop d ''payload'')] w
                    else if strict_eq t (JStr ''roomList'') then
                      emit c ''roomList'' [Val (own_prop d ''rooms'')] w
                    else if strict_eq t (JStr ''roomUpdated'') then
                      emit c ''roomUpdated'' [Val (own_prop d ''metaData'')] w
                    else if strict_eq t (JStr ''roomTagAdded'') then
                      emit c ''roomTagAdded''
                        [Val (own_prop d ''tag''), Val (own_prop d ''tags'')] w
                    else if strict_eq t (JStr ''roomTagRemoved'') then
                      emit c ''roomTagRemoved''
                        [Val (own_prop d ''tag''), Val (own_prop d ''tags'')] w
                    else if strict_eq t (JStr ''error'') then
                      emit c ''error'' [Val (own_prop d ''message'')] w
                    else Returns (c, w))))"

definition onmessage ::
  "(string \<Rightarrow> jsval option) \<Rightarrow> ('x, 'w) client \<Rightarrow> 'w \<Rightarrow> message_event \<Rightarrow>
   ('x exn, ('x, 'w) client \<times> 'w) outcome" where
  "onmessage JSON_parse c w evt = handleMessage JSON_parse c w evt"

text \<open>
  The event loop hands the message events to \<open>onmessage\<close> one at a time, each to
  completion; an exception that escapes a handler is reported by the runtime and the
  next event is delivered to the state the handler has left.
\<close>

fun deliver ::
  "(string \<Rightarrow> jsval option) \<Rightarrow> message_event list \<Rightarrow> ('x, 'w) client \<times> 'w \<Rightarrow>
   ('x, 'w) client \<times> 'w" where
  "deliver JSON_parse [] cw = cw"
| "deliver JSON_parse (evt # evts) cw =
     deliver JSON_parse evts (reached (onmessage JSON_parse (fst cw) (snd cw) evt))"

section \<open>Specified properties\<close>

text \<open>\<open>v != null\<close>: neither \<open>null\<close> nor \<open>undefined\<close>.\<close>

definition non_null :: "jsval \<Rightarrow> bool" where
  "non_null v = (v \<noteq> JNull \<and> v \<noteq> JUndefined)"

text \<open>
  The host equation of the specification's data model, \<open>isHost == (ownerId == playerId)\<close>,
  with the equality the code itself uses.
\<close>

definition host_equation :: "'a session_scheme \<Rightarrow> bool" where
  "host_equation c = (isHost c = strict_eq (ownerId c) (playerId c))"

text \<open>
  The equation the code maintains: the client is host exactly when an owner is recorded
  and it is the local player.
\<close>

definition host_invariant :: "'a session_scheme \<Rightarrow> bool" where
  "host_invariant c =
     (isHost c = (non_null (ownerId c) \<and> strict_eq (ownerId c) (playerId c)))"

text \<open>
  A parsed message agrees with the local identity: an id is assigned while no owner is
  recorded; \<open>roomCreated\<close> names the local player; \<open>roomJoined\<close> names an owner other
  than the local player; \<open>makeHost\<close> arrives when the local id is known;
  \<open>reassignedHost\<close> names a new host.
\<close>

definition identity_consistent :: "'a session_scheme \<Rightarrow> jsval \<Rightarrow> bool" where
  "identity_consistent c d =
     (let t = own_prop d ''type'' in
      if t = JStr ''assignId'' then \<not> non_null (ownerId c)
      else if t = JStr ''roomCreated'' then
        non_null (own_prop d ''playerId'') \<and> strict_eq (own_prop d ''playerId'') (playerId c)
      else if t = JStr ''roomJoined'' then
        \<not> (non_null (own_prop d ''ownerId'') \<and> strict_eq (own_prop d ''ownerId'') (playerId c))
      else if t = JStr ''makeHost'' then non_null (playerId c)
      else if t = JStr ''reassignedHost'' then non_null (own_prop d ''newHostId'')
      else True)"

text \<open>The second invariant of the data model: \<open>roomId != null\<close> implies \<open>ownerId != null\<close>.\<close>

definition room_owner_invariant :: "'a session_scheme \<Rightarrow> bool" where
  "room_owner_invariant c = (non_null (roomId c) \<longrightarrow> non_null (ownerId c))"

text \<open>
  A parsed message supplies the owner it installs: the \<open>playerId\<close> of \<open>roomCreated\<close>,
  the \<open>ownerId\<close> of \<open>roomJoined\<close>, the \<open>newHostId\<close> of \<open>reassignedHost\<close>, and for
  \<open>makeHost\<close> the local \<open>playerId\<close>.
\<close>

definition owner_supplied :: "'a session_scheme \<Rightarrow> jsval \<Rightarrow> bool" where
  "owner_supplied c d =
     (let t = own_prop d ''type'' in
      if t = JStr ''roomCreated'' then non_null (own_prop d ''playerId'')
      else if t = JStr ''roomJoined'' then non_null (own_prop d ''ownerId'')
      else if t = JStr ''makeHost'' then non_null (playerId c)
      else if t = JStr ''reassignedHost'' then non_null (own_prop d ''newHostId'')
      else True)"

text \<open>The sixteen \<open>case\<close> labels of the \<open>switch\<close>.\<close>

definition inbound_types :: "string list" where
  "inbound_types =
     [''assignId'', ''roomCreated'', ''roomJoined'', ''playerJoined'', ''leftRoom'',
      ''makeHost'', ''reassignedHost'', ''playerLeft'', ''relay'', ''tellOwner'',
      ''tellPlayer'', ''roomList'', ''roomUpdated'', ''roomTagAdded'', ''roomTagRemoved'',
      ''error'']"

text \<open>The guard of \<open>_send\<close> and \<open>sendBinary\<close> lets a frame through.\<close>

definition transport_open :: "('x, 'w) client \<Rightarrow> bool" where
  "transport_open c = (case ws c of None \<Rightarrow> False | Some s \<Rightarrow> readyState s = OPEN)"

text \<open>
  The binary frame of the specification's data model: the sender identifier as four
  bytes, most significant first, then the payload. The server builds it; the client only
  decodes it.
\<close>

definition binary_frame :: "32 word \<Rightarrow> 8 word list \<Rightarrow> 8 word list" where
  "binary_frame senderId payload =
     [ucast (drop_bit 24 senderId), ucast (drop_bit 16 senderId),
      ucast (drop_bit 8 senderId), ucast senderId] @ payload"

section \<open>Concrete clients, callbacks and frames\<close>

text \<open>
  What \<open>JSON.parse\<close> returns on the text frames used below; on \<open>{not json\<close> it
  fails. No other text is given to this table.
\<close>

definition scenario_frames :: "(string \<times> jsval) list" where
  \<open>scenario_frames =
     [(''null'', JNull),
      (''{"type":"unknownThing"}'', JObj 1 [(''type'', JStr ''unknownThing'')]),
      (''{"type":"assignId","playerId":7}'',
         JObj 2 [(''type'', JStr ''assignId''), (''playerId'', JNum (Finite 7))]),
      (''{"type":"roomCreated","roomId":"R1","playerId":7,"metaData":{}}'',
         JObj 3 [(''type'', JStr ''roomCreated''), (''roomId'', JStr ''R1''),
                 (''playerId'', JNum (Finite 7)), (''metaData'', JObj 4 [])]),
      (''{"type":"roomJoined","roomId":"R1","playerId":7,"ownerId":7,"maxClients":8,"metaData":{}}'',
         JObj 5 [(''type'', JStr ''roomJoined''), (''roomId'', JStr ''R1''),
                 (''playerId'', JNum (Finite 7)), (''ownerId'', JNum (Finite 7)),
                 (''maxClients'', JNum (Finite 8)), (''metaData'', JObj 6 [])]),
      (''{"type":"roomJoined","roomId":"R1","playerId":7,"ownerId":5,"maxClients":8,"metaData":{}}'',
         JObj 7 [(''type'', JStr ''roomJoined''), (''roomId'', JStr ''R1''),
                 (''playerId'', JNum (Finite 7)), (''ownerId'', JNum (Finite 5)),
                 (''maxClients'', JNum (Finite 8)), (''metaData'', JObj 8 [])]),
      (''{"type":"makeHost","oldHostId":5}'',
         JObj 9 [(''type'', JStr ''makeHost''), (''oldHostId'', JNum (Finite 5))])]\<close>

definition JSON_parse_scenarios :: "string \<Rightarrow> jsval option" where
  "JSON_parse_scenarios txt = map_of scenario_frames txt"

text \<open>A client without listeners, as constructed, and the same in a room it hosts.\<close>

definition fresh_client :: "(unit, unit) client" where
  "fresh_client = NetClient ''wss://gamebackend-dk2p.onrender.com'' ''defaultGame''"

definition in_room :: "(unit, unit) client" where
  "in_room = fresh_client\<lparr>playerId := JNum (Finite 7), roomId := JStr ''R1'',
     ownerId := JNum (Finite 7), isHost := True\<rparr>"

text \<open>After \<open>connect\<close>, before the socket has opened.\<close>

definition connecting :: "(unit, unit) client" where
  "connecting = fresh_client\<lparr>ws := Some \<lparr>readyState = CONNECTING,
     binaryType = ''arraybuffer'', sent = []\<rparr>\<rparr>"

text \<open>
  An application that keeps a log of the callbacks that ran, each with its arguments.
\<close>

type_synonym log = "(string \<times> arg list) list"

definition log_as :: "string \<Rightarrow> (string, log) callback" where
  "log_as name s args w = Returns (w @ [(name, args)])"

definition log_then_throw :: "string \<Rightarrow> (string, log) callback" where
  "log_then_throw name s args w = Throws (Raised name) (w @ [(name, args)])"

definition app_client :: "(string, log) client" where
  "app_client = NetClient ''wss://gamebackend-dk2p.onrender.com'' ''defaultGame''"

definition three_listeners :: "(string, log) client" where
  "three_listeners =
     reached (on (reached (on (reached (on app_client ''relay'' (log_as ''a'')))
       ''relay'' (log_then_throw ''b''))) ''relay'' (log_as ''c''))"

definition binary_listener :: "(string, log) client" where
  "binary_listener = reached (on app_client ''binary'' (log_as ''app''))"

text \<open>
  Two stand-ins for \<open>JSON.stringify\<close>: one that always yields a text, one that
  always throws.
\<close>

definition stringify_braces :: "json_object \<Rightarrow> unit exn + string" where
  "stringify_braces obj = Inr ''{}''"

definition stringify_throws :: "json_object \<Rightarrow> unit exn + string" where
  "stringify_throws obj = Inl TypeError"

text \<open>A callback that logs the session it sees, and a hosting client that has it.\<close>

definition log_session :: "string \<Rightarrow> (string, log) callback" where
  "log_session name s args w =
     Returns (w @ [(name, [Val (playerId s), Val (roomId s), Val (ownerId s),
                           Val (JBool (isHost s))])])"

definition hosting_listener :: "(string, log) client" where
  "hosting_listener =
     reached (on (app_client\<lparr>playerId := JNum (Finite 7), roomId := JStr ''R1'',
                    ownerId := JNum (Finite 7), isHost := True\<rparr>)
       ''disconnected'' (log_session ''app''))"

section \<open>Basic facts\<close>

lemma strict_eq_refl: "strict_eq v v"
  by (cases v) simp_all

lemma strict_eq_sym: "strict_eq a b = strict_eq b a"
  by (cases a; cases b) auto

lemma strict_eq_JStr: "strict_eq t (JStr s) \<longleftrightarrow> t = JStr s"
  by (cases t) auto

lemma non_null_simps [simp]:
  "\<not> non_null JNull" "\<not> non_null JUndefined" "non_null (JBool b)" "non_null (JNum n)"
  "non_null (JStr s)" "non_null (JArr r xs)" "non_null (JObj r fs)"
  by (simp_all add: non_null_def)

text \<open>Emitting an event leaves the client as it is, whatever the callbacks do.\<close>

lemma reached_with_client: "fst (reached (with_client c r)) = c"
  by (cases r) simp_all

lemma reached_emit: "fst (reached (emit c event args w)) = c"
  by (simp add: emit_def reached_with_client split: option.split)

lemma forEach_append:
  "forEach (xs @ ys) s args w =
     (case forEach xs s args w of
        Returns w' \<Rightarrow> forEach ys s args w'
      | Throws e w' \<Rightarrow> Throws e w')"
  by (induction xs arbitrary: w) (auto split: outcome.split)

text \<open>Four big-endian bytes put together again give the word they came from.\<close>

lemma be_bytes_fold:
  fixes x :: "32 word"
  shows "push_bit 24 (ucast (ucast (drop_bit 24 x) :: 8 word))
       OR push_bit 16 (ucast (ucast (drop_bit 16 x) :: 8 word))
       OR push_bit 8 (ucast (ucast (drop_bit 8 x) :: 8 word))
       OR ucast (ucast x :: 8 word) = x"
proof (rule bit_word_eqI)
  fix n :: nat
  assume "n < LENGTH(32)"
  then consider "n < 8" | "8 \<le> n" "n < 16" | "16 \<le> n" "n < 24" | "24 \<le> n" "n < 32"
    by fastforce
  then show "bit (push_bit 24 (ucast (ucast (drop_bit 24 x) :: 8 word))
       OR push_bit 16 (ucast (ucast (drop_bit 16 x) :: 8 word))
       OR push_bit 8 (ucast (ucast (drop_bit 8 x) :: 8 word))
       OR ucast (ucast x :: 8 word) :: 32 word) n = bit x n"
    by cases (auto simp add: bit_simps)
qed

lemma getUint32_binary_frame: "getUint32 (binary_frame senderId payload) 0 = Inr senderId"
  by (simp add: getUint32_def binary_frame_def be_bytes_fold)

lemma slice_binary_frame: "slice (binary_frame senderId payload) 4 = payload"
  by (simp add: slice_def binary_frame_def)

text \<open>The session a message leaves behind, whether the emit returns or throws.\<close>

lemma handleMessage_binary_state:
  "fst (reached (handleMessage JSON_parse c w \<lparr>data = ArrayBuffer bytes\<rparr>)) = c"
  by (simp add: handleMessage_def reached_emit split: sum.split)

lemma handleMessage_text_state:
  "JSON_parse txt = Some d \<Longrightarrow>
   fst (reached (handleMessage JSON_parse c w \<lparr>data = Text txt\<rparr>)) =
     (let t = own_prop d ''type'' in
      if d = JNull \<or> d = JUndefined then c
      else if t = JStr ''assignId'' then c\<lparr>playerId := own_prop d ''playerId''\<rparr>
      else if t = JStr ''roomCreated'' then
        c\<lparr>roomId := own_prop d ''roomId'', ownerId := own_prop d ''playerId'', isHost := True\<rparr>
      else if t = JStr ''roomJoined'' then
        c\<lparr>roomId := own_prop d ''roomId'', ownerId := own_prop d ''ownerId'', isHost := False\<rparr>
      else if t = JStr ''leftRoom'' then c\<lparr>roomId := JNull, ownerId := JNull, isHost := False\<rparr>
      else if t = JStr ''makeHost'' then c\<lparr>isHost := True, ownerId := playerId c\<rparr>
      else if t = JStr ''reassignedHost'' then
        c\<lparr>ownerId := own_prop d ''newHostId'',
          isHost := strict_eq (playerId c) (own_prop d ''newHostId'')\<rparr>
      else c)"
  for c :: "('x, 'w) client"
  by (cases d) (simp_all add: handleMessage_def reached_emit strict_eq_JStr Let_def)

section \<open>The host equation (C1)\<close>

text \<open>
  Claim C1, as stated: after every inbound message and after disconnection,
  \<open>isHost == (ownerId == playerId)\<close>. It fails. After a close the three identifiers
  are \<open>null\<close>, so \<open>ownerId === playerId\<close>, and \<open>isHost\<close> is \<open>false\<close>. A client
  that is told \<open>roomCreated\<close> before any \<open>assignId\<close> is host with an owner 7 and no
  local id. A client with id 7 that is told it joined a room owned by 7 is not host.
\<close>

theorem host_equation_counterexample:
  \<open>\<not> host_equation (fst (reached (onclose in_room ())))
   \<and> \<not> host_equation (fst (deliver JSON_parse_scenarios
         [\<lparr>data = Text ''{"type":"roomCreated","roomId":"R1","playerId":7,"metaData":{}}''\<rparr>]
         (fresh_client, ())))
   \<and> \<not> host_equation (fst (deliver JSON_parse_scenarios
         [\<lparr>data = Text ''{"type":"assignId","playerId":7}''\<rparr>,
          \<lparr>data = Text ''{"type":"roomJoined","roomId":"R1","playerId":7,"ownerId":7,"maxClients":8,"metaData":{}}''\<rparr>]
         (fresh_client, ())))\<close>
  by (simp add: host_equation_def onclose_def reached_emit in_room_def fresh_client_def
      NetClient_def onmessage_def handleMessage_text_state JSON_parse_scenarios_def
      scenario_frames_def)

text \<open>
  Claim C1, amended: \<open>isHost\<close> is true exactly when \<open>ownerId\<close> is non-null and
  \<open>ownerId === playerId\<close>. This holds for a new client and after every close, and
  every inbound frame keeps it, provided that a text frame that parses agrees with the
  local identity (\<open>identity_consistent\<close>). Binary frames, unparseable text and the
  message types that only emit need no proviso.
\<close>

theorem host_invariant_maintained:
  "host_invariant (NetClient u g :: ('x, 'w) client)
   \<and> host_invariant (fst (reached (onclose c0 w0)))
   \<and> (host_invariant c
        \<and> (\<forall>txt d. data evt = Text txt \<and> JSON_parse txt = Some d \<longrightarrow> identity_consistent c d)
       \<longrightarrow> host_invariant (fst (reached (handleMessage JSON_parse c w evt))))"
  for c0 c :: "('x, 'w) client"
proof (intro conjI impI)
  show "host_invariant (NetClient u g :: ('x, 'w) client)"
    by (simp add: host_invariant_def NetClient_def)
  show "host_invariant (fst (reached (onclose c0 w0)))"
    by (simp add: host_invariant_def onclose_def reached_emit)
next
  assume a: "host_invariant c
    \<and> (\<forall>txt d. data evt = Text txt \<and> JSON_parse txt = Some d \<longrightarrow> identity_consistent c d)"
  obtain m where evt: "evt = \<lparr>data = m\<rparr>"
    by (cases evt) simp
  show "host_invariant (fst (reached (handleMessage JSON_parse c w evt)))"
  proof (cases m)
    case (ArrayBuffer bytes)
    with a evt show ?thesis
      by (simp add: handleMessage_binary_state)
  next
    case (Text body)
    show ?thesis
    proof (cases "JSON_parse body")
      case None
      with a evt Text show ?thesis
        by (simp add: handleMessage_def)
    next
      case (Some d)
      with a evt Text have ok: "identity_consistent c d" and inv: "host_invariant c"
        by simp_all
      from ok inv show ?thesis
        unfolding evt Text handleMessage_text_state [of JSON_parse body d, OF Some]
        by (auto simp add: host_invariant_def identity_consistent_def Let_def strict_eq_refl
            strict_eq_sym [of "playerId c"] split: if_splits)
    qed
  qed
qed

text \<open>
  Claim C1, amended, at a concrete input: the client with id 7 receives
  \<open>roomCreated\<close> for room R1 naming player 7, and is host afterwards.
\<close>

theorem host_invariant_maintained_witness:
  \<open>host_invariant (fresh_client\<lparr>playerId := JNum (Finite 7)\<rparr>)
   \<and> identity_consistent (fresh_client\<lparr>playerId := JNum (Finite 7)\<rparr>)
        (JObj 3 [(''type'', JStr ''roomCreated''), (''roomId'', JStr ''R1''),
                 (''playerId'', JNum (Finite 7)), (''metaData'', JObj 4 [])])
   \<and> host_invariant (fst (reached (handleMessage JSON_parse_scenarios
         (fresh_client\<lparr>playerId := JNum (Finite 7)\<rparr>) ()
         \<lparr>data = Text ''{"type":"roomCreated","roomId":"R1","playerId":7,"metaData":{}}''\<rparr>)))
   \<and> isHost (fst (reached (handleMessage JSON_parse_scenarios
         (fresh_client\<lparr>playerId := JNum (Finite 7)\<rparr>) ()
         \<lparr>data = Text ''{"type":"roomCreated","roomId":"R1","playerId":7,"metaData":{}}''\<rparr>)))\<close>
  using host_invariant_maintained
    [where c = "fresh_client\<lparr>playerId := JNum (Finite 7)\<rparr>" and w = "()"
       and JSON_parse = JSON_parse_scenarios
       and evt = \<open>\<lparr>data = Text ''{"type":"roomCreated","roomId":"R1","playerId":7,"metaData":{}}''\<rparr>\<close>]
  by (simp add: host_invariant_def identity_consistent_def fresh_client_def NetClient_def
      JSON_parse_scenarios_def scenario_frames_def handleMessage_text_state)

section \<open>A callback that throws (C2)\<close>

text \<open>
  Claim C2, as stated: when one callback raises during \<open>emit\<close>, the remaining
  callbacks of that event are still invoked. It fails: with callbacks \<open>a\<close>, \<open>b\<close>,
  \<open>c\<close> registered in this order for \<open>relay\<close>, where \<open>b\<close> throws, the emit throws
  what \<open>b\<close> threw and \<open>c\<close> has not run.
\<close>

theorem emit_not_isolated_counterexample:
  "emit three_listeners ''relay'' [Val (JStr ''hi'')] []
     = Throws (Raised ''b'')
         (three_listeners, [(''a'', [Val (JStr ''hi'')]), (''b'', [Val (JStr ''hi'')])])
   \<and> ''c'' \<notin> fst ` set (snd (reached (emit three_listeners ''relay'' [Val (JStr ''hi'')] [])))"
  by (simp add: emit_def three_listeners_def app_client_def NetClient_def on_def
      object_prototype_keys_def log_as_def log_then_throw_def)

text \<open>
  Claim C2, amended: when the callbacks registered before \<open>cb\<close> return and \<open>cb\<close>
  throws, \<open>emit\<close> throws that exception out of the state \<open>cb\<close> left; the callbacks
  registered after \<open>cb\<close> are not invoked, so the outcome does not depend on them.
\<close>

theorem emit_stops_at_throw:
  "listeners c event = Some (before @ cb # after) \<Longrightarrow>
   forEach before (session.truncate c) args w = Returns w1 \<Longrightarrow>
   cb (session.truncate c) args w1 = Throws e w2 \<Longrightarrow>
   emit c event args w = Throws e (c, w2)"
  by (simp add: emit_def forEach_append)

text \<open>
  Claim C2, amended, at a concrete input: the three callbacks above, with no arguments.
\<close>

theorem emit_stops_at_throw_witness:
  "listeners three_listeners ''relay''
     = Some ([log_as ''a''] @ log_then_throw ''b'' # [log_as ''c''])
   \<and> emit three_listeners ''relay'' [] []
     = Throws (Raised ''b'') (three_listeners, [(''a'', []), (''b'', [])])"
proof -
  have l: "listeners three_listeners ''relay''
     = Some ([log_as ''a''] @ log_then_throw ''b'' # [log_as ''c''])"
    by (simp add: three_listeners_def app_client_def NetClient_def on_def
        object_prototype_keys_def)
  have b: "forEach [log_as ''a''] (session.truncate three_listeners) [] []
     = Returns [(''a'', [])]"
    by (simp add: log_as_def)
  have t: "log_then_throw ''b'' (session.truncate three_listeners) [] [(''a'', [])]
     = Throws (Raised ''b'') [(''a'', []), (''b'', [])]"
    by (simp add: log_then_throw_def)
  from l emit_stops_at_throw [OF l b t] show ?thesis
    by simp
qed

section \<open>Transport close (C3)\<close>

text \<open>
  Claim C3: whatever the session was, the close handler first sets the four session
  fields to \<open>null\<close>, \<open>null\<close>, \<open>null\<close>, \<open>false\<close> and then emits \<open>disconnected\<close>:
  every callback registered for \<open>disconnected\<close> is run, in order, with no argument,
  on the session already reset; without such a callback the handler just returns. In
  both cases the client it leaves has exactly these four values and its other fields as
  before.
\<close>

theorem onclose_resets:
  "onclose c w =
     (case listeners c ''disconnected'' of
        None \<Rightarrow>
          Returns (c\<lparr>playerId := JNull, roomId := JNull, ownerId := JNull, isHost := False\<rparr>, w)
      | Some cbs \<Rightarrow>
          with_client
            (c\<lparr>playerId := JNull, roomId := JNull, ownerId := JNull, isHost := False\<rparr>)
            (forEach cbs \<lparr>playerId = JNull, roomId = JNull, ownerId = JNull, isHost = False\<rparr>
               [] w))
   \<and> session.truncate (fst (reached (onclose c w)))
       = \<lparr>playerId = JNull, roomId = JNull, ownerId = JNull, isHost = False\<rparr>
   \<and> session.more (fst (reached (onclose c w))) = session.more c"
  by (simp add: onclose_def emit_def reached_with_client session.truncate_def
      object_prototype_keys_def split: option.split)

text \<open>
  Claim C3 at a concrete input: the close of a client that hosts room R1 as player 7 and
  has a \<open>disconnected\<close> callback, which runs once and sees the session reset.
\<close>

theorem onclose_resets_witness:
  "isHost hosting_listener
   \<and> onclose hosting_listener []
     = Returns
         (hosting_listener\<lparr>playerId := JNull, roomId := JNull, ownerId := JNull,
            isHost := False\<rparr>,
          [(''app'', [Val JNull, Val JNull, Val JNull, Val (JBool False)])])
   \<and> session.truncate (fst (reached (onclose hosting_listener [])))
     = \<lparr>playerId = JNull, roomId = JNull, ownerId = JNull, isHost = False\<rparr>"
proof -
  have h: "isHost hosting_listener"
    by (simp add: hosting_listener_def on_def app_client_def NetClient_def
        object_prototype_keys_def)
  have l: "listeners hosting_listener ''disconnected'' = Some [log_session ''app'']"
    by (simp add: hosting_listener_def on_def app_client_def NetClient_def
        object_prototype_keys_def)
  from h l onclose_resets [of hosting_listener "[]"] show ?thesis
    by (simp add: log_session_def session.truncate_def)
qed

section \<open>Binary frames (C4, C9)\<close>

text \<open>
  Claim C4: for every sender identifier and every payload, the empty one included,
  handling the binary frame made of the four big-endian bytes of the identifier and the
  payload runs every callback registered for \<open>binary\<close>, in order, with two arguments:
  the identifier as an unsigned number and the payload byte for byte; without such a
  callback the handler just returns. The callbacks see the session as it was, and the
  client the handler leaves is the one it started from.
\<close>

theorem binary_frame_decoded:
  "handleMessage JSON_parse c w \<lparr>data = ArrayBuffer (binary_frame senderId payload)\<rparr>
     = (case listeners c ''binary'' of
          None \<Rightarrow> Returns (c, w)
        | Some cbs \<Rightarrow>
            with_client c
              (forEach cbs (session.truncate c)
                 [Val (JNum (Finite (of_nat (unat senderId)))), Bytes payload] w))
   \<and> fst (reached (handleMessage JSON_parse c w
         \<lparr>data = ArrayBuffer (binary_frame senderId payload)\<rparr>)) = c"
  by (simp add: handleMessage_def getUint32_binary_frame slice_binary_frame reached_emit
      reached_with_client emit_def uint32_number_def object_prototype_keys_def
      split: option.split)

text \<open>
  Claim C4 at concrete inputs: sender 3 with payload 1, 2, 3 reaches the application's
  \<open>binary\<close> callback as \<open>(3, [1, 2, 3])\<close>, and sender 2147483649, whose first byte
  has its top bit set, with the empty payload as \<open>(2147483649, [])\<close>.
\<close>

theorem binary_frame_decoded_witness:
  "binary_frame 3 [1, 2, 3] = [0, 0, 0, 3, 1, 2, 3]
   \<and> handleMessage JSON_parse_scenarios binary_listener []
        \<lparr>data = ArrayBuffer [0, 0, 0, 3, 1, 2, 3]\<rparr>
     = Returns (binary_listener, [(''app'', [Val (JNum (Finite 3)), Bytes [1, 2, 3]])])
   \<and> binary_frame 2147483649 [] = [128, 0, 0, 1]
   \<and> handleMessage JSON_parse_scenarios binary_listener []
        \<lparr>data = ArrayBuffer [128, 0, 0, 1]\<rparr>
     = Returns (binary_listener, [(''app'', [Val (JNum (Finite 2147483649)), Bytes []])])"
proof -
  have a: "binary_frame 3 [1, 2, 3] = [0, 0, 0, 3, 1, 2, 3]"
    by (simp add: binary_frame_def drop_bit_eq_div)
  have b: "binary_frame 2147483649 [] = [128, 0, 0, 1]"
    by (simp add: binary_frame_def drop_bit_eq_div)
  have l: "listeners binary_listener ''binary'' = Some [log_as ''app'']"
    by (simp add: binary_listener_def app_client_def NetClient_def on_def
        object_prototype_keys_def)
  from a b l
    binary_frame_decoded [of JSON_parse_scenarios binary_listener "[]" 3 "[1, 2, 3]"]
    binary_frame_decoded [of JSON_parse_scenarios binary_listener "[]" 2147483649 "[]"]
  show ?thesis
    by (simp add: log_as_def)
qed

text \<open>
  Claim C9: a binary frame of fewer than four bytes is not discarded; reading the sender
  identifier throws a RangeError, which leaves the handler with the client and the
  application untouched.
\<close>

theorem short_binary_frame_throws:
  "length bytes < 4 \<Longrightarrow>
   handleMessage JSON_parse c w \<lparr>data = ArrayBuffer bytes\<rparr> = Throws RangeError (c, w)"
  by (simp add: handleMessage_def getUint32_def)

text \<open>Claim C9 at a concrete input: a frame of three bytes.\<close>

theorem short_binary_frame_throws_witness:
  "handleMessage JSON_parse_scenarios in_room () \<lparr>data = ArrayBuffer [1, 2, 3]\<rparr>
     = Throws RangeError (in_room, ())"
  using short_binary_frame_throws [of "[1, 2, 3]" JSON_parse_scenarios in_room "()"]
  by simp

section \<open>Sending while the transport is not open (C5)\<close>

text \<open>
  Claim C5, as stated: while the socket is absent or not open, every outbound call sends
  nothing and raises no error. It fails for \<open>createRoom\<close> and \<open>listRooms\<close>: the
  array literal that spreads \<open>tags\<close> is built before the gate of \<open>_send\<close> is
  reached, so on a client that never connected \<open>createRoom(null)\<close> and
  \<open>listRooms(5)\<close> throw a TypeError.
\<close>

theorem send_raises_counterexample:
  "\<not> transport_open fresh_client
   \<and> createRoom stringify_braces fresh_client JNull JUndefined JUndefined JUndefined
       = Throws TypeError fresh_client
   \<and> listRooms stringify_braces fresh_client (JNum (Finite 5))
       = Throws TypeError fresh_client"
  by (simp add: transport_open_def fresh_client_def NetClient_def createRoom_def
      listRooms_def)

text \<open>
  Claim C5, amended: while the socket is absent or its state is not OPEN, each of the
  eleven outbound calls leaves the client as it was, so nothing is added to the frames
  sent. \<open>joinRoom\<close>, \<open>leaveRoom\<close>, \<open>updateMeta\<close>, \<open>addTag\<close>, \<open>removeTag\<close>,
  \<open>sendRelay\<close>, \<open>tellOwner\<close>, \<open>tellPlayer\<close> and \<open>sendBinary\<close> return without
  error, and so do \<open>createRoom\<close> and \<open>listRooms\<close> when \<open>tags\<close> is omitted, an
  array or a string; for any other \<open>tags\<close> these two throw a TypeError.
\<close>

theorem send_gated:
  "\<not> transport_open c \<Longrightarrow>
     createRoom JSON_stringify c tags maxClients isPrivate metaData
       = (case tags of
            JUndefined \<Rightarrow> Returns c
          | JStr s \<Rightarrow> Returns c
          | JArr r xs \<Rightarrow> Returns c
          | _ \<Rightarrow> Throws TypeError c)
   \<and> listRooms JSON_stringify c tags'
       = (case tags' of
            JUndefined \<Rightarrow> Returns c
          | JStr s \<Rightarrow> Returns c
          | JArr r xs \<Rightarrow> Returns c
          | _ \<Rightarrow> Throws TypeError c)
   \<and> joinRoom JSON_stringify c rid = Returns c
   \<and> leaveRoom JSON_stringify c = Returns c
   \<and> updateMeta JSON_stringify c metaData' = Returns c
   \<and> addTag JSON_stringify c tag = Returns c
   \<and> removeTag JSON_stringify c tag = Returns c
   \<and> sendRelay JSON_stringify c payload = Returns c
   \<and> tellOwner JSON_stringify c payload = Returns c
   \<and> tellPlayer JSON_stringify c pid payload = Returns c
   \<and> sendBinary c buffer = Returns c"
proof -
  assume closed: "\<not> transport_open c"
  then have gate: "send JSON_stringify c obj = Returns c" for obj
    by (auto simp add: transport_open_def send_def split: option.splits)
  have "createRoom JSON_stringify c tags maxClients isPrivate metaData
       = (case tags of
            JUndefined \<Rightarrow> Returns c
          | JStr s \<Rightarrow> Returns c
          | JArr r xs \<Rightarrow> Returns c
          | _ \<Rightarrow> Throws TypeError c)"
    by (cases tags) (simp_all add: createRoom_def gate)
  moreover have "listRooms JSON_stringify c tags'
       = (case tags' of
            JUndefined \<Rightarrow> Returns c
          | JStr s \<Rightarrow> Returns c
          | JArr r xs \<Rightarrow> Returns c
          | _ \<Rightarrow> Throws TypeError c)"
    by (cases tags') (simp_all add: listRooms_def gate)
  moreover from closed have "sendBinary c buffer = Returns c"
    by (auto simp add: transport_open_def sendBinary_def split: option.splits)
  ultimately show ?thesis
    by (simp add: gate joinRoom_def leaveRoom_def updateMeta_def addTag_def removeTag_def
        sendRelay_def tellOwner_def tellPlayer_def)
qed

text \<open>
  Claim C5, amended, at concrete inputs: a client whose socket is still connecting, with
  a \<open>JSON.stringify\<close> that would throw if it were reached, and a client that never
  connected.
\<close>

theorem send_gated_witness:
  "\<not> transport_open connecting
   \<and> createRoom stringify_throws connecting (JArr 0 [JStr ''ranked''])
        (JNum (Finite 8)) (JBool True) (JObj 1 [])
       = Returns connecting
   \<and> createRoom stringify_throws connecting JUndefined JUndefined JUndefined JUndefined
       = Returns connecting
   \<and> createRoom stringify_throws connecting (JBool True) JUndefined JUndefined JUndefined
       = Throws TypeError connecting
   \<and> listRooms stringify_throws connecting (JStr ''ab'') = Returns connecting
   \<and> tellPlayer stringify_throws connecting (JNum (Finite 9)) (JStr ''hi'')
       = Returns connecting
   \<and> sendBinary connecting [1, 2, 3] = Returns connecting
   \<and> sendBinary fresh_client [1, 2, 3] = Returns fresh_client"
proof -
  have a: "\<not> transport_open connecting"
    by (simp add: transport_open_def connecting_def)
  have b: "\<not> transport_open fresh_client"
    by (simp add: transport_open_def fresh_client_def NetClient_def)
  from a
    send_gated [OF a, where tags = "JArr 0 [JStr ''ranked'']" and tags' = "JStr ''ab''"]
    send_gated [OF a, where tags = JUndefined]
    send_gated [OF a, where tags = "JBool True"]
    send_gated [OF b]
  show ?thesis
    by simp
qed

section \<open>Text frames that are dropped or that throw (C6, C7, C10)\<close>

text \<open>
  Claim C6: a text frame that \<open>JSON.parse\<close> rejects is discarded: the handler returns
  with the client and the application as they were, so no callback has run, no field has
  changed and nothing is thrown.
\<close>

theorem malformed_text_discarded:
  "JSON_parse txt = None \<Longrightarrow>
   handleMessage JSON_parse c w \<lparr>data = Text txt\<rparr> = Returns (c, w)"
  by (simp add: handleMessage_def)

text \<open>Claim C6 at a concrete input: the text \<open>{not json\<close>.\<close>

theorem malformed_text_discarded_witness:
  "JSON_parse_scenarios ''{not json'' = None
   \<and> handleMessage JSON_parse_scenarios binary_listener [] \<lparr>data = Text ''{not json''\<rparr>
       = Returns (binary_listener, [])"
proof -
  have a: "JSON_parse_scenarios ''{not json'' = None"
    by (simp add: JSON_parse_scenarios_def scenario_frames_def)
  from a malformed_text_discarded [where JSON_parse = JSON_parse_scenarios, OF a]
  show ?thesis
    by simp
qed

text \<open>
  Claim C7: a text frame that parses to an object whose \<open>type\<close> is none of the sixteen
  labels (a different string, a value that is no string, or no \<open>type\<close> at all) is
  ignored: the handler returns with the client and the application as they were.
\<close>

theorem unrecognized_type_ignored:
  "JSON_parse txt = Some (JObj r fs) \<Longrightarrow>
   own_prop (JObj r fs) ''type'' \<notin> JStr ` set inbound_types \<Longrightarrow>
   handleMessage JSON_parse c w \<lparr>data = Text txt\<rparr> = Returns (c, w)"
  by (simp add: handleMessage_def inbound_types_def strict_eq_JStr image_iff)

text \<open>Claim C7 at a concrete input: the object with type \<open>unknownThing\<close>.\<close>

theorem unrecognized_type_ignored_witness:
  \<open>handleMessage JSON_parse_scenarios in_room () \<lparr>data = Text ''{"type":"unknownThing"}''\<rparr>
     = Returns (in_room, ())\<close>
proof -
  have a: \<open>JSON_parse_scenarios ''{"type":"unknownThing"}''
     = Some (JObj 1 [(''type'', JStr ''unknownThing'')])\<close>
    by (simp add: JSON_parse_scenarios_def scenario_frames_def)
  have b: "own_prop (JObj 1 [(''type'', JStr ''unknownThing'')]) ''type''
     \<notin> JStr ` set inbound_types"
    by (simp add: inbound_types_def)
  from unrecognized_type_ignored [where JSON_parse = JSON_parse_scenarios, OF a b]
  show ?thesis .
qed

text \<open>
  Claim C10: the text frame \<open>null\<close> parses, to \<open>null\<close> (a fact of \<open>JSON.parse\<close>,
  taken as the hypothesis), and reading \<open>data.type\<close> then throws a TypeError that
  leaves the handler: JSON that is well formed but no object is not always ignored.
\<close>

theorem null_text_throws:
  "JSON_parse ''null'' = Some JNull \<Longrightarrow>
   handleMessage JSON_parse c w \<lparr>data = Text ''null''\<rparr> = Throws TypeError (c, w)"
  by (simp add: handleMessage_def)

text \<open>Claim C10 at a concrete input: the frame \<open>null\<close> sent to a client in a room.\<close>

theorem null_text_throws_witness:
  "JSON_parse_scenarios ''null'' = Some JNull
   \<and> handleMessage JSON_parse_scenarios in_room () \<lparr>data = Text ''null''\<rparr>
       = Throws TypeError (in_room, ())"
proof -
  have a: "JSON_parse_scenarios ''null'' = Some JNull"
    by (simp add: JSON_parse_scenarios_def scenario_frames_def)
  from a null_text_throws [where JSON_parse = JSON_parse_scenarios, OF a]
  show ?thesis
    by simp
qed

section \<open>A room has an owner (C8)\<close>

text \<open>
  Claim C8, as stated: after every inbound message and after disconnection, a non-null
  \<open>roomId\<close> comes with a non-null \<open>ownerId\<close>. It fails: a client that has not been
  assigned an id joins room R1 owned by 5 and is then made host; \<open>ownerId\<close> becomes its
  own \<open>playerId\<close>, which is \<open>null\<close>, while \<open>roomId\<close> is R1.
\<close>

theorem room_owner_counterexample:
  \<open>\<not> room_owner_invariant (fst (deliver JSON_parse_scenarios
         [\<lparr>data = Text ''{"type":"roomJoined","roomId":"R1","playerId":7,"ownerId":5,"maxClients":8,"metaData":{}}''\<rparr>,
          \<lparr>data = Text ''{"type":"makeHost","oldHostId":5}''\<rparr>]
         (fresh_client, ())))\<close>
  by (simp add: room_owner_invariant_def fresh_client_def
      NetClient_def onmessage_def handleMessage_text_state JSON_parse_scenarios_def
      scenario_frames_def)

text \<open>
  Claim C8, amended: a non-null \<open>roomId\<close> comes with a non-null \<open>ownerId\<close> for a new
  client and after every close, and every inbound frame keeps this, provided that a text
  frame that parses supplies the owner it installs (\<open>owner_supplied\<close>): a non-null
  \<open>playerId\<close> in \<open>roomCreated\<close>, \<open>ownerId\<close> in \<open>roomJoined\<close>, \<open>newHostId\<close> in
  \<open>reassignedHost\<close>, and a non-null local \<open>playerId\<close> when \<open>makeHost\<close> arrives.
\<close>

theorem room_owner_invariant_maintained:
  "room_owner_invariant (NetClient u g :: ('x, 'w) client)
   \<and> room_owner_invariant (fst (reached (onclose c0 w0)))
   \<and> (room_owner_invariant c
        \<and> (\<forall>txt d. data evt = Text txt \<and> JSON_parse txt = Some d \<longrightarrow> owner_supplied c d)
       \<longrightarrow> room_owner_invariant (fst (reached (handleMessage JSON_parse c w evt))))"
  for c0 c :: "('x, 'w) client"
proof (intro conjI impI)
  show "room_owner_invariant (NetClient u g :: ('x, 'w) client)"
    by (simp add: room_owner_invariant_def NetClient_def)
  show "room_owner_invariant (fst (reached (onclose c0 w0)))"
    by (simp add: room_owner_invariant_def onclose_def reached_emit)
next
  assume a: "room_owner_invariant c
    \<and> (\<forall>txt d. data evt = Text txt \<and> JSON_parse txt = Some d \<longrightarrow> owner_supplied c d)"
  obtain m where evt: "evt = \<lparr>data = m\<rparr>"
    by (cases evt) simp
  show "room_owner_invariant (fst (reached (handleMessage JSON_parse c w evt)))"
  proof (cases m)
    case (ArrayBuffer bytes)
    with a evt show ?thesis
      by (simp add: handleMessage_binary_state)
  next
    case (Text body)
    show ?thesis
    proof (cases "JSON_parse body")
      case None
      with a evt Text show ?thesis
        by (simp add: handleMessage_def)
    next
      case (Some d)
      with a evt Text have ok: "owner_supplied c d" and inv: "room_owner_invariant c"
        by simp_all
      from ok inv show ?thesis
        unfolding evt Text handleMessage_text_state [of JSON_parse body d, OF Some]
        by (auto simp add: room_owner_invariant_def owner_supplied_def Let_def
            split: if_splits)
    qed
  qed
qed

text \<open>
  Claim C8, amended, at a concrete input: a new client joins room R1 owned by 5.
\<close>

theorem room_owner_invariant_maintained_witness:
  \<open>room_owner_invariant fresh_client
   \<and> owner_supplied fresh_client
        (JObj 7 [(''type'', JStr ''roomJoined''), (''roomId'', JStr ''R1''),
                 (''playerId'', JNum (Finite 7)), (''ownerId'', JNum (Finite 5)),
                 (''maxClients'', JNum (Finite 8)), (''metaData'', JObj 8 [])])
   \<and> room_owner_invariant (fst (reached (handleMessage JSON_parse_scenarios fresh_client ()
         \<lparr>data = Text ''{"type":"roomJoined","roomId":"R1","playerId":7,"ownerId":5,"maxClients":8,"metaData":{}}''\<rparr>)))
   \<and> roomId (fst (reached (handleMessage JSON_parse_scenarios fresh_client ()
         \<lparr>data = Text ''{"type":"roomJoined","roomId":"R1","playerId":7,"ownerId":5,"maxClients":8,"metaData":{}}''\<rparr>)))
       = JStr ''R1''\<close>
  using room_owner_invariant_maintained
    [where c = fresh_client and w = "()" and JSON_parse = JSON_parse_scenarios
       and evt = \<open>\<lparr>data = Text ''{"type":"roomJoined","roomId":"R1","playerId":7,"ownerId":5,"maxClients":8,"metaData":{}}''\<rparr>\<close>]
  by (simp add: room_owner_invariant_def owner_supplied_def fresh_client_def NetClient_def
      JSON_parse_scenarios_def scenario_frames_def handleMessage_text_state)

end
